theory Spec2Isabelle
  imports Main "HOL-Library.Word"
begin

section \<open>Python values\<close>

text \<open>
  A Python \<open>str\<close> is a sequence of Unicode code points. String literals of the source
  that are ASCII are written \<open>py ''...''\<close>; the Cyrillic literals are given by their
  code points.
\<close>

type_synonym pystr = "nat list"

definition py :: "string \<Rightarrow> pystr" where
  "py cs = map of_char cs"

text \<open>
  What \<open>request.json()\<close> yields: \<open>None\<close>, a \<open>bool\<close>, an \<open>int\<close>, a \<open>float\<close> (kept as its
  IEEE-754 binary64 bit pattern), a \<open>str\<close>, a \<open>list\<close> or a \<open>dict\<close> with string keys
  (an association list read with \<open>map_of\<close>).
\<close>

datatype json =
    JNull
  | JBool bool
  | JInt int
  | JFloat "64 word"
  | JStr pystr
  | JArr "json list"
  | JObj "(pystr \<times> json) list"

text \<open>
  Exceptions (subclasses of \<open>Exception\<close>). \<open>TypeError\<close> records the refused operation
  and its operand, \<open>AttributeError\<close> the missing attribute, \<open>LibraryError\<close> is anything
  raised inside \<open>httpx\<close>, \<open>openai\<close> or the JSON decoder, with its message.
\<close>

datatype py_op = Contains | Subscript

datatype exn =
    KeyError pystr
  | TypeError py_op json
  | AttributeError pystr
  | IndexError
  | LibraryError pystr
  | HTTPException nat pystr

text \<open>Truthiness, as \<open>not text\<close> tests it. A float is falsy when it is \<open>0.0\<close> or \<open>-0.0\<close>.\<close>

fun truthy :: "json \<Rightarrow> bool" where
  "truthy JNull = False"
| "truthy (JBool b) = b"
| "truthy (JInt i) = (i \<noteq> 0)"
| "truthy (JFloat f) = (push_bit 1 f \<noteq> 0)"
| "truthy (JStr s) = (s \<noteq> [])"
| "truthy (JArr xs) = (xs \<noteq> [])"
| "truthy (JObj kvs) = (kvs \<noteq> [])"

text \<open>\<open>sub in s\<close> on two strings: \<open>sub\<close> occurs in \<open>s\<close> as a contiguous piece.\<close>

fun str_contains :: "pystr \<Rightarrow> pystr \<Rightarrow> bool" where
  "str_contains sub [] = (sub = [])"
| "str_contains sub (c # cs) = (take (length sub) (c # cs) = sub \<or> str_contains sub cs)"

text \<open>
  \<open>k in v\<close> for a string \<open>k\<close>: key membership on a dict, element membership on a list,
  substring test on a string, \<open>TypeError\<close> on anything else.
\<close>

fun py_in :: "pystr \<Rightarrow> json \<Rightarrow> exn + bool" where
  "py_in k (JObj kvs) = Inr (map_of kvs k \<noteq> None)"
| "py_in k (JArr xs) = Inr (JStr k \<in> set xs)"
| "py_in k (JStr s) = Inr (str_contains k s)"
| "py_in k v = Inl (TypeError Contains v)"

text \<open>\<open>v[k]\<close> for a string \<open>k\<close>: only a dict accepts a string subscript.\<close>

fun py_getitem :: "json \<Rightarrow> pystr \<Rightarrow> exn + json" where
  "py_getitem (JObj kvs) k = (case map_of kvs k of None \<Rightarrow> Inl (KeyError k) | Some v \<Rightarrow> Inr v)"
| "py_getitem v k = Inl (TypeError Subscript v)"

text \<open>\<open>v.get(k, d)\<close>: only a dict has the method.\<close>

fun py_get :: "json \<Rightarrow> pystr \<Rightarrow> json \<Rightarrow> exn + json" where
  "py_get (JObj kvs) k d = Inr (case map_of kvs k of None \<Rightarrow> d | Some v \<Rightarrow> v)"
| "py_get v k d = Inl (AttributeError (py ''get''))"

text \<open>\<open>str.strip()\<close>: removes the characters for which \<open>str.isspace\<close> holds from both ends.\<close>

definition py_isspace :: "nat \<Rightarrow> bool" where
  "py_isspace c \<longleftrightarrow>
     (9 \<le> c \<and> c \<le> 13) \<or> (28 \<le> c \<and> c \<le> 32) \<or> c = 133 \<or> c = 160 \<or> c = 5760 \<or>
     (8192 \<le> c \<and> c \<le> 8202) \<or> c = 8232 \<or> c = 8233 \<or> c = 8239 \<or> c = 8287 \<or> c = 12288"

definition py_strip :: "pystr \<Rightarrow> pystr" where
  "py_strip s = rev (dropWhile py_isspace (rev (dropWhile py_isspace s)))"

section \<open>The outside world and the effects of a request\<close>

datatype chat_message = ChatMessage (content: "pystr option")

datatype choice = Choice (message: chat_message)

datatype chat_completion = ChatCompletion (choices: "choice list")

text \<open>
  An \<open>httpx\<close> response, as far as the program looks at it: what \<open>raise_for_status()\<close>
  raises, if anything, and what \<open>.json()\<close> returns or raises.
\<close>

record http_response =
  status_error :: "exn option"
  decoded :: "exn + json"

text \<open>
  Everything the program does not decide itself: the two environment variables read at
  import, what \<open>openai.ChatCompletion.create\<close> does with its keyword arguments, what the
  HTTP client does with a request, and the wording \<open>str(e)\<close> has for the exceptions of
  the interpreter and of the framework.
\<close>

record world =
  TELEGRAM_BOT_TOKEN :: "pystr option"
  OPENAI_API_KEY :: "pystr option"
  chat_completion_create :: "json \<Rightarrow> exn + chat_completion"
  http_post :: "pystr \<Rightarrow> json \<Rightarrow> exn + http_response"
  http_get :: "pystr \<Rightarrow> exn + http_response"
  interpreter_text :: "exn \<Rightarrow> pystr"

text \<open>
  \<open>str(e)\<close>. A \<open>KeyError\<close> prints the \<open>repr\<close> of its key, which is the key between single
  quotes for a key without quotes, backslashes or control characters (the keys the
  handler looks up are such).
\<close>

fun py_str :: "world \<Rightarrow> exn \<Rightarrow> pystr" where
  "py_str w (KeyError k) = py [CHR 0x27] @ k @ py [CHR 0x27]"
| "py_str w (LibraryError m) = m"
| "py_str w e = interpreter_text w e"

text \<open>The outbound calls of one request, in order, and the lines printed.\<close>

datatype call =
    ChatCompletionCreate json
  | HttpPost pystr json
  | HttpGet pystr

record trace =
  calls :: "call list"
  console :: "pystr list"

definition initial :: trace where
  "initial = \<lparr>calls = [], console = []\<rparr>"

text \<open>A Python computation: it returns or raises, and extends the trace.\<close>

type_synonym 'a io = "trace \<Rightarrow> (exn + 'a) \<times> trace"

definition py_return :: "'a \<Rightarrow> 'a io" where
  "py_return x = (\<lambda>s. (Inr x, s))"

definition py_raise :: "exn \<Rightarrow> 'a io" where
  "py_raise e = (\<lambda>s. (Inl e, s))"

definition lift_result :: "exn + 'a \<Rightarrow> 'a io" where
  "lift_result r = (\<lambda>s. (r, s))"

definition py_bind :: "'a io \<Rightarrow> ('a \<Rightarrow> 'b io) \<Rightarrow> 'b io" where
  "py_bind m f = (\<lambda>s. case m s of (Inl e, s') \<Rightarrow> (Inl e, s') | (Inr x, s') \<Rightarrow> f x s')"

definition try_except :: "'a io \<Rightarrow> (exn \<Rightarrow> 'a io) \<Rightarrow> 'a io" where
  "try_except m h = (\<lambda>s. case m s of (Inl e, s') \<Rightarrow> h e s' | (Inr x, s') \<Rightarrow> (Inr x, s'))"

definition py_print :: "pystr \<Rightarrow> unit io" where
  "py_print line = (\<lambda>s. (Inr (), s\<lparr>console := console s @ [line]\<rparr>))"

definition client_post :: "world \<Rightarrow> pystr \<Rightarrow> json \<Rightarrow> http_response io" where
  "client_post w url payload =
     (\<lambda>s. (http_post w url payload, s\<lparr>calls := calls s @ [HttpPost url payload]\<rparr>))"

definition client_get :: "world \<Rightarrow> pystr \<Rightarrow> http_response io" where
  "client_get w url = (\<lambda>s. (http_get w url, s\<lparr>calls := calls s @ [HttpGet url]\<rparr>))"

definition raise_for_status :: "http_response \<Rightarrow> unit io" where
  "raise_for_status response =
     (case status_error response of None \<Rightarrow> py_return () | Some e \<Rightarrow> py_raise e)"

definition response_json :: "http_response \<Rightarrow> json io" where
  "response_json response = lift_result (decoded response)"

definition openai_ChatCompletion_create :: "world \<Rightarrow> json \<Rightarrow> chat_completion io" where
  "openai_ChatCompletion_create w kwargs =
     (\<lambda>s. (chat_completion_create w kwargs, s\<lparr>calls := calls s @ [ChatCompletionCreate kwargs]\<rparr>))"

section \<open>main.py\<close>

subsection \<open>Module level\<close>

text \<open>The f-string renders an unset token, \<open>None\<close>, as the text \<open>None\<close>.\<close>

definition TELEGRAM_API_URL :: "world \<Rightarrow> pystr" where
  "TELEGRAM_API_URL w =
     py ''https://api.telegram.org/bot'' @
       (case TELEGRAM_BOT_TOKEN w of None \<Rightarrow> py ''None'' | Some token \<Rightarrow> token)"

subsection \<open>send_telegram_message\<close>

definition send_payload :: "json \<Rightarrow> pystr \<Rightarrow> json" where
  "send_payload chat_id text = JObj [(py ''chat_id'', chat_id), (py ''text'', JStr text)]"

definition send_telegram_message :: "world \<Rightarrow> json \<Rightarrow> pystr \<Rightarrow> json io" where
  "send_telegram_message w chat_id text =
     (let url = TELEGRAM_API_URL w @ py ''/sendMessage'';
          payload = send_payload chat_id text
      in py_bind (client_post w url payload) (\<lambda>response.
         py_bind (raise_for_status response) (\<lambda>_.
         response_json response)))"

subsection \<open>get_openai_response\<close>

text \<open>The keyword arguments of the completion call; \<open>0.7\<close> is the double \<open>0x3FE6666666666666\<close>.\<close>

definition create_kwargs :: "json \<Rightarrow> json" where
  "create_kwargs text =
     JObj [(py ''model'', JStr (py ''gpt-3.5-turbo'')),
           (py ''messages'',
              JArr [JObj [(py ''role'', JStr (py ''system'')),
                          (py ''content'', JStr (py ''You are a helpful assistant.''))],
                    JObj [(py ''role'', JStr (py ''user'')), (py ''content'', text)]]),
           (py ''max_tokens'', JInt 500),
           (py ''temperature'', JFloat 0x3FE6666666666666)]"

text \<open>\<open>"Oshibka pri obrashchenii k OpenAI: "\<close>, in Cyrillic.\<close>

definition openai_error_prefix :: pystr where
  "openai_error_prefix =
     [1054, 1096, 1080, 1073, 1082, 1072, 32, 1087, 1088, 1080, 32, 1086, 1073, 1088, 1072,
      1097, 1077, 1085, 1080, 1080, 32, 1082, 32, 79, 112, 101, 110, 65, 73, 58, 32]"

text \<open>\<open>xs[0]\<close> and \<open>content.strip()\<close>, which raise on an empty list and on \<open>None\<close>.\<close>

definition first_item :: "'a list \<Rightarrow> 'a io" where
  "first_item xs = (case xs of [] \<Rightarrow> py_raise IndexError | x # _ \<Rightarrow> py_return x)"

definition strip_method :: "pystr option \<Rightarrow> pystr io" where
  "strip_method c =
     (case c of None \<Rightarrow> py_raise (AttributeError (py ''strip'')) | Some s \<Rightarrow> py_return (py_strip s))"

definition get_openai_response_try :: "world \<Rightarrow> json \<Rightarrow> pystr io" where
  "get_openai_response_try w text =
     py_bind (openai_ChatCompletion_create w (create_kwargs text)) (\<lambda>response.
     py_bind (first_item (choices response)) (\<lambda>choice0.
     strip_method (content (message choice0))))"

definition get_openai_response :: "world \<Rightarrow> json \<Rightarrow> pystr io" where
  "get_openai_response w text =
     try_except (get_openai_response_try w text)
       (\<lambda>e. py_return (openai_error_prefix @ py_str w e))"

subsection \<open>webhook\<close>

text \<open>The two fixed replies and the prefix of the log line, in Cyrillic in the source.\<close>

definition welcome_message :: pystr where
  "welcome_message =
     [1055, 1088, 1080, 1074, 1077, 1090, 33, 32, 1071, 32, 1073, 1086, 1090, 44, 32, 1088,
      1072, 1073, 1086, 1090, 1072, 1102, 1097, 1080, 1081, 32, 1089, 32, 67, 104, 97, 116,
      71, 80, 84, 46, 10, 1054, 1090, 1087, 1088, 1072, 1074, 1100, 32, 1084, 1085, 1077, 32,
      1083, 1102, 1073, 1086, 1077, 32, 1089, 1086, 1086, 1073, 1097, 1077, 1085, 1080, 1077,
      44, 32, 1080, 32, 1103, 32, 1086, 1090, 1074, 1077, 1095, 1091, 32, 1089, 32, 1087,
      1086, 1084, 1086, 1097, 1100, 1102, 32, 79, 112, 101, 110, 65, 73, 46]"

definition please_send_text :: pystr where
  "please_send_text =
     [1055, 1086, 1078, 1072, 1083, 1091, 1081, 1089, 1090, 1072, 44, 32, 1086, 1090, 1087,
      1088, 1072, 1074, 1100, 1090, 1077, 32, 1090, 1077, 1082, 1089, 1090, 1086, 1074, 1086,
      1077, 32, 1089, 1086, 1086, 1073, 1097, 1077, 1085, 1080, 1077, 46]"

definition webhook_error_prefix :: pystr where
  "webhook_error_prefix =
     [1054, 1096, 1080, 1073, 1082, 1072, 32, 1087, 1088, 1080, 32, 1086, 1073, 1088, 1072,
      1073, 1086, 1090, 1082, 1077, 32, 119, 101, 98, 104, 111, 111, 107, 58, 32]"

datatype request = Request (request_json: "exn + json")

datatype response = JSONResponse (body: json) (status_code: nat)

definition ok_response :: response where
  "ok_response = JSONResponse (JObj [(py ''ok'', JBool True)]) 200"

definition error_response :: "world \<Rightarrow> exn \<Rightarrow> response" where
  "error_response w e =
     JSONResponse (JObj [(py ''ok'', JBool False), (py ''error'', JStr (py_str w e))]) 500"

definition webhook_try :: "world \<Rightarrow> request \<Rightarrow> response io" where
  "webhook_try w request =
     py_bind (lift_result (request_json request)) (\<lambda>data.
     py_bind (lift_result (py_in (py ''message'') data)) (\<lambda>has_message.
     if \<not> has_message then py_return ok_response
     else
       py_bind (lift_result (py_getitem data (py ''message''))) (\<lambda>message.
       py_bind (lift_result (py_getitem message (py ''chat''))) (\<lambda>chat.
       py_bind (lift_result (py_getitem chat (py ''id''))) (\<lambda>chat_id.
       py_bind (lift_result (py_get message (py ''text'') (JStr []))) (\<lambda>text.
       if text = JStr (py ''/start'') then
         py_bind (send_telegram_message w chat_id welcome_message) (\<lambda>_.
         py_return ok_response)
       else if \<not> truthy text then
         py_bind (send_telegram_message w chat_id please_send_text) (\<lambda>_.
         py_return ok_response)
       else
         py_bind (get_openai_response w text) (\<lambda>ai_response.
         py_bind (send_telegram_message w chat_id ai_response) (\<lambda>_.
         py_return ok_response))))))))"

definition webhook :: "world \<Rightarrow> request \<Rightarrow> response io" where
  "webhook w request =
     try_except (webhook_try w request)
       (\<lambda>e. py_bind (py_print (webhook_error_prefix @ py_str w e)) (\<lambda>_.
            py_return (error_response w e)))"

subsection \<open>set_webhook and get_webhook_info\<close>

text \<open>\<open>"TELEGRAM_BOT_TOKEN ne ustanovlen"\<close>, the last two words in Cyrillic.\<close>

definition token_not_set :: pystr where
  "token_not_set =
     [84, 69, 76, 69, 71, 82, 65, 77, 95, 66, 79, 84, 95, 84, 79, 75, 69, 78, 32, 1085, 1077,
      32, 1091, 1089, 1090, 1072, 1085, 1086, 1074, 1083, 1077, 1085]"

text \<open>\<open>not TELEGRAM_BOT_TOKEN\<close>: the variable is unset or empty.\<close>

definition not_TELEGRAM_BOT_TOKEN :: "world \<Rightarrow> bool" where
  "not_TELEGRAM_BOT_TOKEN w =
     (case TELEGRAM_BOT_TOKEN w of None \<Rightarrow> True | Some token \<Rightarrow> token = [])"

definition set_webhook :: "world \<Rightarrow> pystr \<Rightarrow> json io" where
  "set_webhook w webhook_url =
     (if not_TELEGRAM_BOT_TOKEN w then py_raise (HTTPException 500 token_not_set)
      else
        let url = TELEGRAM_API_URL w @ py ''/setWebhook'';
            payload = JObj [(py ''url'', JStr webhook_url)]
        in py_bind (client_post w url payload) (\<lambda>response.
           py_bind (raise_for_status response) (\<lambda>_.
           response_json response)))"

definition get_webhook_info :: "world \<Rightarrow> json io" where
  "get_webhook_info w =
     (if not_TELEGRAM_BOT_TOKEN w then py_raise (HTTPException 500 token_not_set)
      else
        let url = TELEGRAM_API_URL w @ py ''/getWebhookInfo''
        in py_bind (client_get w url) (\<lambda>response.
           py_bind (raise_for_status response) (\<lambda>_.
           response_json response)))"

section \<open>Reading a trace\<close>

text \<open>A send call is a POST of the HTTP client; the handler posts nothing else.\<close>

fun is_send :: "call \<Rightarrow> bool" where
  "is_send (HttpPost url payload) = True"
| "is_send c = False"

text \<open>A call without the URL it went to: what was asked, not where.\<close>

fun forget_url :: "call \<Rightarrow> call" where
  "forget_url (HttpPost url payload) = HttpPost [] payload"
| "forget_url (HttpGet url) = HttpGet []"
| "forget_url (ChatCompletionCreate kwargs) = ChatCompletionCreate kwargs"

text \<open>The two outbound calls the handler can make, as they appear in the trace.\<close>

definition send_call :: "world \<Rightarrow> json \<Rightarrow> pystr \<Rightarrow> call" where
  "send_call w chat_id text =
     HttpPost (TELEGRAM_API_URL w @ py ''/sendMessage'') (send_payload chat_id text)"

definition completion_call :: "json \<Rightarrow> call" where
  "completion_call text = ChatCompletionCreate (create_kwargs text)"

text \<open>
  What \<open>send_telegram_message\<close> and \<open>get_openai_response\<close> return or raise, read off a
  run of the function itself.
\<close>

definition send_result :: "world \<Rightarrow> json \<Rightarrow> pystr \<Rightarrow> exn + json" where
  "send_result w chat_id text = fst (send_telegram_message w chat_id text initial)"

definition ai_result :: "world \<Rightarrow> json \<Rightarrow> exn + pystr" where
  "ai_result w text = fst (get_openai_response w text initial)"

section \<open>Concrete worlds and updates\<close>

text \<open>
  Inputs on which the handler is run below: a completion service that answers or fails,
  a messaging platform that accepts every request, one that is unreachable, and one that
  knows a single bot token and answers 404 under any other path.
\<close>

definition plain_text :: "exn \<Rightarrow> pystr" where
  "plain_text e = py ''error''"

definition hello_create :: "json \<Rightarrow> exn + chat_completion" where
  "hello_create kwargs = Inr (ChatCompletion [Choice (ChatMessage (Some (py '' Hello! '')))])"


definition accepted :: http_response where
  "accepted = \<lparr>status_error = None, decoded = Inr (JObj [(py ''ok'', JBool True)])\<rparr>"

definition not_found :: http_response where
  "not_found = \<lparr>status_error = Some (LibraryError (py ''Client error 404 Not Found'')),
                 decoded = Inr (JObj [(py ''ok'', JBool False)])\<rparr>"

definition accepting_post :: "pystr \<Rightarrow> json \<Rightarrow> exn + http_response" where
  "accepting_post url payload = Inr accepted"

definition accepting_get :: "pystr \<Rightarrow> exn + http_response" where
  "accepting_get url = Inr accepted"


definition token_checking_post :: "pystr \<Rightarrow> json \<Rightarrow> exn + http_response" where
  "token_checking_post url payload =
     (if url = py ''https://api.telegram.org/bot123:ABC/sendMessage'' then Inr accepted
      else Inr not_found)"

definition online_world :: world where
  "online_world =
     \<lparr>TELEGRAM_BOT_TOKEN = Some (py ''123:ABC''), OPENAI_API_KEY = Some (py ''sk-test''),
      chat_completion_create = hello_create, http_post = accepting_post,
      http_get = accepting_get, interpreter_text = plain_text\<rparr>"



definition telegram_world :: world where
  "telegram_world = online_world\<lparr>http_post := token_checking_post\<rparr>"

definition tokenless_telegram_world :: world where
  "tokenless_telegram_world = telegram_world\<lparr>TELEGRAM_BOT_TOKEN := None\<rparr>"

definition update_with :: "(pystr \<times> json) list \<Rightarrow> request" where
  "update_with message_fields =
     Request (Inr (JObj [(py ''message'', JObj message_fields)]))"

definition chat_42 :: "pystr \<times> json" where
  "chat_42 = (py ''chat'', JObj [(py ''id'', JInt 42)])"


definition start_update :: request where
  "start_update = update_with [chat_42, (py ''text'', JStr (py ''/start''))]"


definition hello_update :: request where
  "hello_update = update_with [chat_42, (py ''text'', JStr (py ''hello''))]"

definition space_update :: request where
  "space_update = update_with [chat_42, (py ''text'', JStr (py '' ''))]"

definition chatless_update :: request where
  "chatless_update = update_with []"



section \<open>Auxiliary facts\<close>

lemma py_eq_iff [simp]: "py a = py b \<longleftrightarrow> a = b"
  unfolding py_def by (simp add: inj_on_def)

lemma py_Nil_iff [simp]: "py a = [] \<longleftrightarrow> a = []"
  unfolding py_def by simp

lemma Nil_py_iff [simp]: "[] = py a \<longleftrightarrow> a = []"
  unfolding py_def by auto

lemma bind_lift_Inr [simp]: "py_bind (lift_result (Inr x)) f = f x"
  by (simp add: py_bind_def lift_result_def)

lemma bind_lift_Inl [simp]: "py_bind (lift_result (Inl e)) f = lift_result (Inl e)"
  by (simp add: py_bind_def lift_result_def)

lemma py_return_lift: "py_return x = lift_result (Inr x)"
  by (simp add: py_return_def lift_result_def)

lemma py_str_token [simp]: "py_str (w\<lparr>TELEGRAM_BOT_TOKEN := tok\<rparr>) e = py_str w e"
  by (cases e) simp_all

lemma error_response_token [simp]:
  "error_response (w\<lparr>TELEGRAM_BOT_TOKEN := tok\<rparr>) e = error_response w e"
  by (simp add: error_response_def)

lemma error_response_not_ok [simp]: "error_response w e \<noteq> ok_response"
  by (simp add: error_response_def ok_response_def)

subsection \<open>The sender\<close>

lemma send_telegram_message_run:
  "send_telegram_message w chat_id text s =
     (send_result w chat_id text, s\<lparr>calls := calls s @ [send_call w chat_id text]\<rparr>)"
  by (simp add: send_result_def send_call_def send_telegram_message_def py_bind_def
      client_post_def raise_for_status_def response_json_def lift_result_def py_return_def
      py_raise_def Let_def split: sum.splits option.splits prod.splits)

lemma send_result_cases:
  "send_result w chat_id text =
     (case http_post w (TELEGRAM_API_URL w @ py ''/sendMessage'') (send_payload chat_id text) of
        Inl e \<Rightarrow> Inl e
      | Inr response \<Rightarrow>
          (case status_error response of Some e \<Rightarrow> Inl e | None \<Rightarrow> decoded response))"
  by (simp add: send_result_def send_telegram_message_def py_bind_def
      client_post_def raise_for_status_def response_json_def lift_result_def py_return_def
      py_raise_def Let_def split: sum.splits option.splits prod.splits)

subsection \<open>The completion client\<close>

lemma get_openai_response_run:
  "get_openai_response w text s =
     (ai_result w text, s\<lparr>calls := calls s @ [completion_call text]\<rparr>)"
  by (auto simp add: ai_result_def completion_call_def get_openai_response_def
      get_openai_response_try_def try_except_def py_bind_def openai_ChatCompletion_create_def
      first_item_def strip_method_def py_return_def py_raise_def
      split: sum.splits option.splits prod.splits list.splits)

lemma ai_result_cases:
  "ai_result w text =
     Inr (case chat_completion_create w (create_kwargs text) of
            Inl e \<Rightarrow> openai_error_prefix @ py_str w e
          | Inr response \<Rightarrow>
              (case choices response of
                 [] \<Rightarrow> openai_error_prefix @ py_str w IndexError
               | choice0 # _ \<Rightarrow>
                   (case content (message choice0) of
                      None \<Rightarrow> openai_error_prefix @ py_str w (AttributeError (py ''strip''))
                    | Some generated \<Rightarrow> py_strip generated)))"
  by (auto simp add: ai_result_def completion_call_def get_openai_response_def
      get_openai_response_try_def try_except_def py_bind_def openai_ChatCompletion_create_def
      first_item_def strip_method_def py_return_def py_raise_def
      split: sum.splits option.splits prod.splits list.splits)

lemma ai_result_returns: "\<exists>reply. ai_result w text = Inr reply"
  by (simp add: ai_result_cases)

lemma ai_result_token [simp]: "ai_result (w\<lparr>TELEGRAM_BOT_TOKEN := tok\<rparr>) text = ai_result w text"
  by (simp add: ai_result_cases split: sum.splits list.splits option.splits)

subsection \<open>The handler, path by path\<close>

lemma webhook_of_try:
  "webhook w req s =
     (case webhook_try w req s of
        (Inr r, s') \<Rightarrow> (Inr r, s')
      | (Inl e, s') \<Rightarrow>
          (Inr (error_response w e),
           s'\<lparr>console := console s' @ [webhook_error_prefix @ py_str w e]\<rparr>))"
  by (simp add: webhook_def try_except_def py_bind_def py_print_def py_return_def
      split: sum.splits prod.splits)

lemma send_then_ok:
  "py_bind (send_telegram_message w chat_id text) (\<lambda>_. py_return ok_response) s =
     ((case send_result w chat_id text of Inl e \<Rightarrow> Inl e | Inr _ \<Rightarrow> Inr ok_response),
      s\<lparr>calls := calls s @ [send_call w chat_id text]\<rparr>)"
  by (simp add: py_bind_def send_telegram_message_run py_return_def split: sum.splits)

lemma complete_then_send:
  assumes "ai_result w text = Inr reply"
  shows "py_bind (get_openai_response w text) (\<lambda>ai_response.
           py_bind (send_telegram_message w chat_id ai_response) (\<lambda>_.
           py_return ok_response)) s =
     ((case send_result w chat_id reply of Inl e \<Rightarrow> Inl e | Inr _ \<Rightarrow> Inr ok_response),
      s\<lparr>calls := calls s @ [completion_call text, send_call w chat_id reply]\<rparr>)"
  using assms
  by (simp add: py_bind_def [of "get_openai_response w text"] get_openai_response_run send_then_ok)

lemma webhook_try_fields:
  assumes "request_json req = Inr (JObj d)" "map_of d (py ''message'') = Some (JObj m)"
    "map_of m (py ''chat'') = Some (JObj c)" "map_of c (py ''id'') = Some chat_id"
  shows "webhook_try w req =
     (let text = (case map_of m (py ''text'') of None \<Rightarrow> JStr [] | Some v \<Rightarrow> v) in
       if text = JStr (py ''/start'') then
         py_bind (send_telegram_message w chat_id welcome_message) (\<lambda>_.
         py_return ok_response)
       else if \<not> truthy text then
         py_bind (send_telegram_message w chat_id please_send_text) (\<lambda>_.
         py_return ok_response)
       else
         py_bind (get_openai_response w text) (\<lambda>ai_response.
         py_bind (send_telegram_message w chat_id ai_response) (\<lambda>_.
         py_return ok_response)))"
  using assms by (simp add: webhook_try_def Let_def)

text \<open>
  Whatever the request, the body of the handler does one of three things: it stops
  without any call, it sends one fixed text, or it asks for a completion and sends the
  answer. Which one, and with which arguments, does not depend on the bot token.
\<close>

lemma webhook_try_shape:
  "(\<exists>r. (r = Inr ok_response \<or> (\<exists>e. r = Inl e)) \<and>
        (\<forall>tok. webhook_try (w\<lparr>TELEGRAM_BOT_TOKEN := tok\<rparr>) req = lift_result r)) \<or>
   (\<exists>chat_id text. \<forall>tok.
      webhook_try (w\<lparr>TELEGRAM_BOT_TOKEN := tok\<rparr>) req =
        py_bind (send_telegram_message (w\<lparr>TELEGRAM_BOT_TOKEN := tok\<rparr>) chat_id text) (\<lambda>_.
        py_return ok_response)) \<or>
   (\<exists>chat_id text. \<forall>tok.
      webhook_try (w\<lparr>TELEGRAM_BOT_TOKEN := tok\<rparr>) req =
        py_bind (get_openai_response (w\<lparr>TELEGRAM_BOT_TOKEN := tok\<rparr>) text) (\<lambda>ai_response.
        py_bind (send_telegram_message (w\<lparr>TELEGRAM_BOT_TOKEN := tok\<rparr>) chat_id ai_response) (\<lambda>_.
        py_return ok_response)))"
proof (cases "request_json req")
  case (Inl e)
  then have "\<forall>tok. webhook_try (w\<lparr>TELEGRAM_BOT_TOKEN := tok\<rparr>) req = lift_result (Inl e)"
    by (simp add: webhook_try_def)
  then show ?thesis by blast
next
  case data: (Inr data)
  show ?thesis
  proof (cases "py_in (py ''message'') data")
    case (Inl e)
    with data have "\<forall>tok. webhook_try (w\<lparr>TELEGRAM_BOT_TOKEN := tok\<rparr>) req = lift_result (Inl e)"
      by (simp add: webhook_try_def)
    then show ?thesis by blast
  next
    case has: (Inr has_message)
    show ?thesis
    proof (cases has_message)
      case False
      with data has
      have "\<forall>tok. webhook_try (w\<lparr>TELEGRAM_BOT_TOKEN := tok\<rparr>) req = lift_result (Inr ok_response)"
        by (simp add: webhook_try_def py_return_lift)
      then show ?thesis by blast
    next
      case True
      show ?thesis
      proof (cases "py_getitem data (py ''message'')")
        case (Inl e)
        with data has True
        have "\<forall>tok. webhook_try (w\<lparr>TELEGRAM_BOT_TOKEN := tok\<rparr>) req = lift_result (Inl e)"
          by (simp add: webhook_try_def)
        then show ?thesis by blast
      next
        case msg: (Inr msg)
        show ?thesis
        proof (cases "py_getitem msg (py ''chat'')")
          case (Inl e)
          with data has True msg
          have "\<forall>tok. webhook_try (w\<lparr>TELEGRAM_BOT_TOKEN := tok\<rparr>) req = lift_result (Inl e)"
            by (simp add: webhook_try_def)
          then show ?thesis by blast
        next
          case chat: (Inr chat)
          show ?thesis
          proof (cases "py_getitem chat (py ''id'')")
            case (Inl e)
            with data has True msg chat
            have "\<forall>tok. webhook_try (w\<lparr>TELEGRAM_BOT_TOKEN := tok\<rparr>) req = lift_result (Inl e)"
              by (simp add: webhook_try_def)
            then show ?thesis by blast
          next
            case cid: (Inr chat_id)
            show ?thesis
            proof (cases "py_get msg (py ''text'') (JStr [])")
              case (Inl e)
              with data has True msg chat cid
              have "\<forall>tok. webhook_try (w\<lparr>TELEGRAM_BOT_TOKEN := tok\<rparr>) req = lift_result (Inl e)"
                by (simp add: webhook_try_def)
              then show ?thesis by blast
            next
              case tval: (Inr tval)
              consider (start) "tval = JStr (py ''/start'')"
                | (empty) "tval \<noteq> JStr (py ''/start'')" "\<not> truthy tval"
                | (normal) "tval \<noteq> JStr (py ''/start'')" "truthy tval"
                by blast
              then show ?thesis
              proof cases
                case start
                with data has True msg chat cid tval
                have "\<forall>tok. webhook_try (w\<lparr>TELEGRAM_BOT_TOKEN := tok\<rparr>) req =
                    py_bind (send_telegram_message (w\<lparr>TELEGRAM_BOT_TOKEN := tok\<rparr>) chat_id welcome_message)
                      (\<lambda>_. py_return ok_response)"
                  by (simp add: webhook_try_def)
                then show ?thesis by blast
              next
                case empty
                with data has True msg chat cid tval
                have "\<forall>tok. webhook_try (w\<lparr>TELEGRAM_BOT_TOKEN := tok\<rparr>) req =
                    py_bind (send_telegram_message (w\<lparr>TELEGRAM_BOT_TOKEN := tok\<rparr>) chat_id please_send_text)
                      (\<lambda>_. py_return ok_response)"
                  by (simp add: webhook_try_def)
                then show ?thesis by blast
              next
                case normal
                with data has True msg chat cid tval
                have "\<forall>tok. webhook_try (w\<lparr>TELEGRAM_BOT_TOKEN := tok\<rparr>) req =
                    py_bind (get_openai_response (w\<lparr>TELEGRAM_BOT_TOKEN := tok\<rparr>) tval) (\<lambda>ai_response.
                    py_bind (send_telegram_message (w\<lparr>TELEGRAM_BOT_TOKEN := tok\<rparr>) chat_id ai_response)
                      (\<lambda>_. py_return ok_response))"
                  by (simp add: webhook_try_def)
                then show ?thesis by blast
              qed
            qed
          qed
        qed
      qed
    qed
  qed
qed

lemma webhook_fixed_reply:
  assumes "webhook_try w req =
      py_bind (send_telegram_message w chat_id reply) (\<lambda>_. py_return ok_response)"
  shows "webhook w req s =
     (case send_result w chat_id reply of
        Inr _ \<Rightarrow> (Inr ok_response, s\<lparr>calls := calls s @ [send_call w chat_id reply]\<rparr>)
      | Inl e \<Rightarrow>
          (Inr (error_response w e),
           s\<lparr>calls := calls s @ [send_call w chat_id reply],
             console := console s @ [webhook_error_prefix @ py_str w e]\<rparr>))"
  by (simp add: webhook_of_try assms send_then_ok split: sum.splits)

lemma webhook_ai_reply:
  assumes "webhook_try w req =
      py_bind (get_openai_response w tval) (\<lambda>ai_response.
      py_bind (send_telegram_message w chat_id ai_response) (\<lambda>_.
      py_return ok_response))"
    and "ai_result w tval = Inr reply"
  shows "webhook w req s =
     (case send_result w chat_id reply of
        Inr _ \<Rightarrow>
          (Inr ok_response,
           s\<lparr>calls := calls s @ [completion_call tval, send_call w chat_id reply]\<rparr>)
      | Inl e \<Rightarrow>
          (Inr (error_response w e),
           s\<lparr>calls := calls s @ [completion_call tval, send_call w chat_id reply],
             console := console s @ [webhook_error_prefix @ py_str w e]\<rparr>))"
  by (simp add: webhook_of_try assms(1) complete_then_send [OF assms(2)] split: sum.splits)

lemma request_json_update_with:
  "request_json (update_with fs) =
     Inr (JObj [(py ''message'', JObj fs)])"
  by (simp add: update_with_def)

lemma webhook_try_update_with:
  assumes "map_of fs (py ''chat'') = Some (JObj c)" and "map_of c (py ''id'') = Some chat_id"
  shows "webhook_try w (update_with fs) =
     (let text = (case map_of fs (py ''text'') of None \<Rightarrow> JStr [] | Some v \<Rightarrow> v) in
       if text = JStr (py ''/start'') then
         py_bind (send_telegram_message w chat_id welcome_message) (\<lambda>_.
         py_return ok_response)
       else if \<not> truthy text then
         py_bind (send_telegram_message w chat_id please_send_text) (\<lambda>_.
         py_return ok_response)
       else
         py_bind (get_openai_response w text) (\<lambda>ai_response.
         py_bind (send_telegram_message w chat_id ai_response) (\<lambda>_.
         py_return ok_response)))"
  by (rule webhook_try_fields [OF request_json_update_with _ assms]) simp



lemma ai_result_hello:
  "chat_completion_create w = hello_create \<Longrightarrow> ai_result w tval = Inr (py ''Hello!'')"
  by (simp add: ai_result_cases hello_create_def py_strip_def py_isspace_def py_def)

lemma webhook_no_call:
  assumes "webhook_try w req = lift_result r"
  shows "webhook w req s =
     (case r of
        Inr resp \<Rightarrow> (Inr resp, s)
      | Inl e \<Rightarrow>
          (Inr (error_response w e),
           s\<lparr>console := console s @ [webhook_error_prefix @ py_str w e]\<rparr>))"
  by (simp add: webhook_of_try assms lift_result_def split: sum.splits)

lemma webhook_try_shape_here:
  "(\<exists>r. (r = Inr ok_response \<or> (\<exists>e. r = Inl e)) \<and> webhook_try w req = lift_result r) \<or>
   (\<exists>chat_id reply.
      webhook_try w req =
        py_bind (send_telegram_message w chat_id reply) (\<lambda>_. py_return ok_response)) \<or>
   (\<exists>chat_id tval.
      webhook_try w req =
        py_bind (get_openai_response w tval) (\<lambda>ai_response.
        py_bind (send_telegram_message w chat_id ai_response) (\<lambda>_.
        py_return ok_response)))"
proof -
  have same: "w\<lparr>TELEGRAM_BOT_TOKEN := TELEGRAM_BOT_TOKEN w\<rparr> = w"
    by simp
  from webhook_try_shape [of w req] show ?thesis
  proof (elim disjE exE)
    fix r
    assume r: "(r = Inr ok_response \<or> (\<exists>e. r = Inl e)) \<and>
      (\<forall>tok. webhook_try (w\<lparr>TELEGRAM_BOT_TOKEN := tok\<rparr>) req = lift_result r)"
    then have "webhook_try (w\<lparr>TELEGRAM_BOT_TOKEN := TELEGRAM_BOT_TOKEN w\<rparr>) req = lift_result r"
      by blast
    with r show ?thesis
      unfolding same by blast
  next
    fix chat_id reply
    assume "\<forall>tok. webhook_try (w\<lparr>TELEGRAM_BOT_TOKEN := tok\<rparr>) req =
        py_bind (send_telegram_message (w\<lparr>TELEGRAM_BOT_TOKEN := tok\<rparr>) chat_id reply) (\<lambda>_.
        py_return ok_response)"
    then have "webhook_try (w\<lparr>TELEGRAM_BOT_TOKEN := TELEGRAM_BOT_TOKEN w\<rparr>) req =
        py_bind (send_telegram_message (w\<lparr>TELEGRAM_BOT_TOKEN := TELEGRAM_BOT_TOKEN w\<rparr>) chat_id reply)
          (\<lambda>_. py_return ok_response)"
      by (rule spec)
    then show ?thesis
      unfolding same by blast
  next
    fix chat_id tval
    assume "\<forall>tok. webhook_try (w\<lparr>TELEGRAM_BOT_TOKEN := tok\<rparr>) req =
        py_bind (get_openai_response (w\<lparr>TELEGRAM_BOT_TOKEN := tok\<rparr>) tval) (\<lambda>ai_response.
        py_bind (send_telegram_message (w\<lparr>TELEGRAM_BOT_TOKEN := tok\<rparr>) chat_id ai_response) (\<lambda>_.
        py_return ok_response))"
    then have "webhook_try (w\<lparr>TELEGRAM_BOT_TOKEN := TELEGRAM_BOT_TOKEN w\<rparr>) req =
        py_bind (get_openai_response (w\<lparr>TELEGRAM_BOT_TOKEN := TELEGRAM_BOT_TOKEN w\<rparr>) tval)
          (\<lambda>ai_response.
            py_bind (send_telegram_message (w\<lparr>TELEGRAM_BOT_TOKEN := TELEGRAM_BOT_TOKEN w\<rparr>) chat_id
              ai_response) (\<lambda>_. py_return ok_response))"
      by (rule spec)
    then show ?thesis
      unfolding same by blast
  qed
qed

lemma py_getitem_Inr:
  "py_getitem v k = Inr x \<Longrightarrow> \<exists>kvs. v = JObj kvs \<and> map_of kvs k = Some x"
  by (cases v) (auto split: option.splits)

lemma send_call_inject [simp]:
  "send_call w chat_id reply = send_call w chat_id' reply' \<longleftrightarrow> chat_id = chat_id' \<and> reply = reply'"
  by (auto simp add: send_call_def send_payload_def)

lemma is_send_calls [simp]:
  "is_send (send_call w chat_id reply)" "\<not> is_send (completion_call tval)"
  by (simp_all add: send_call_def completion_call_def)

lemma forget_url_calls [simp]:
  "forget_url (send_call w chat_id reply) = HttpPost [] (send_payload chat_id reply)"
  "forget_url (completion_call tval) = completion_call tval"
  by (simp_all add: send_call_def completion_call_def)

section \<open>The greeting command\<close>




section \<open>Absent or empty text\<close>




section \<open>Ordinary text\<close>




section \<open>Text made of whitespace\<close>

text \<open>
  C10. For an update whose message has a chat id and a text that is not empty and
  consists only of whitespace characters, the handler does not take the branch of the
  "please send text" prompt: the text is truthy, so it is forwarded to the completion
  client like any other text, and what is sent is the completion client's return value.
\<close>

theorem whitespace_text_is_completed:
  assumes "request_json req = Inr (JObj d)"
    and "map_of d (py ''message'') = Some (JObj m)"
    and "map_of m (py ''chat'') = Some (JObj c)"
    and "map_of c (py ''id'') = Some chat_id"
    and "map_of m (py ''text'') = Some (JStr t)"
    and "t \<noteq> []"
    and "\<forall>ch \<in> set t. py_isspace ch"
  shows "\<exists>reply. ai_result w (JStr t) = Inr reply \<and>
    calls (snd (webhook w req s)) =
      calls s @ [completion_call (JStr t), send_call w chat_id reply] \<and>
    calls (snd (webhook w req s)) \<noteq> calls s @ [send_call w chat_id please_send_text]"
proof -
  have "\<not> py_isspace 47"
    by (simp add: py_isspace_def)
  moreover have "47 \<in> set (py ''/start'')"
    by (simp add: py_def)
  ultimately have not_start: "t \<noteq> py ''/start''"
    using assms(7) by blast
  obtain reply where reply: "ai_result w (JStr t) = Inr reply"
    using ai_result_returns by blast
  have "webhook_try w req =
      py_bind (get_openai_response w (JStr t)) (\<lambda>ai_response.
      py_bind (send_telegram_message w chat_id ai_response) (\<lambda>_.
      py_return ok_response))"
    using assms(5,6) not_start by (simp add: webhook_try_fields [OF assms(1-4)])
  then have "webhook w req s =
     (case send_result w chat_id reply of
        Inr _ \<Rightarrow>
          (Inr ok_response,
           s\<lparr>calls := calls s @ [completion_call (JStr t), send_call w chat_id reply]\<rparr>)
      | Inl e \<Rightarrow>
          (Inr (error_response w e),
           s\<lparr>calls := calls s @ [completion_call (JStr t), send_call w chat_id reply],
             console := console s @ [webhook_error_prefix @ py_str w e]\<rparr>))"
    using reply by (rule webhook_ai_reply)
  with reply show ?thesis
    by (auto split: sum.splits)
qed

text \<open>A single space is sent to the completion service, and its answer to the chat.\<close>

theorem whitespace_text_is_completed_witness:
  "py '' '' = [32] \<and> py_isspace 32 \<and>
   calls (snd (webhook online_world space_update initial)) =
     [completion_call (JStr (py '' '')), send_call online_world (JInt 42) (py ''Hello!'')]"
proof -
  have req: "request_json space_update =
     Inr (JObj [(py ''message'', JObj [(py ''chat'', JObj [(py ''id'', JInt 42)]),
                                       (py ''text'', JStr (py '' ''))])])"
    by (simp add: space_update_def update_with_def chat_42_def)
  have space: "\<forall>ch \<in> set (py '' ''). py_isspace ch"
    by (simp add: py_def py_isspace_def)
  have ai: "ai_result online_world (JStr (py '' '')) = Inr (py ''Hello!'')"
    by (rule ai_result_hello) (simp add: online_world_def)
  have "py '' '' = [32] \<and> py_isspace 32"
    by (simp add: py_def py_isspace_def)
  then show ?thesis
    using ai space
      whitespace_text_is_completed [OF req,
        of "[(py ''chat'', JObj [(py ''id'', JInt 42)]), (py ''text'', JStr (py '' ''))]"
           "[(py ''id'', JInt 42)]" "JInt 42" "py '' ''" online_world initial]
    by (auto simp add: initial_def)
qed

section \<open>Updates without a message\<close>




section \<open>A message without a chat id\<close>

text \<open>
  C9. For a body with a \<open>message\<close> key whose value is not an object holding a \<open>chat\<close>
  object with an \<open>id\<close> key, the lookup \<open>message["chat"]["id"]\<close> raises; the exception is
  caught at the top level, logged, and answered with HTTP 500 and
  \<open>{"ok": false, "error": str(e)}\<close>, which is not \<open>{"ok": true}\<close>. No outbound call is
  made. For \<open>{"message": {}}\<close> the exception is \<open>KeyError('chat')\<close>.
\<close>

theorem missing_chat_id_is_an_error:
  assumes "request_json req = Inr (JObj d)"
    and "map_of d (py ''message'') = Some msg"
    and "\<not> (\<exists>m c chat_id. msg = JObj m \<and> map_of m (py ''chat'') = Some (JObj c) \<and>
             map_of c (py ''id'') = Some chat_id)"
  shows "\<exists>e. fst (webhook_try w req s) = Inl e \<and>
    webhook w req s =
      (Inr (JSONResponse (JObj [(py ''ok'', JBool False), (py ''error'', JStr (py_str w e))]) 500),
       s\<lparr>console := console s @ [webhook_error_prefix @ py_str w e]\<rparr>) \<and>
    fst (webhook w req s) \<noteq> Inr ok_response \<and>
    calls (snd (webhook w req s)) = calls s \<and>
    (msg = JObj [] \<longrightarrow> e = KeyError (py ''chat''))"
proof -
  have raised: "\<exists>e. webhook_try w req = lift_result (Inl e) \<and>
      (msg = JObj [] \<longrightarrow> e = KeyError (py ''chat''))"
  proof (cases "py_getitem msg (py ''chat'')")
    case (Inl e)
    then have "webhook_try w req = lift_result (Inl e)"
      using assms(1,2) by (simp add: webhook_try_def)
    moreover have "msg = JObj [] \<longrightarrow> e = KeyError (py ''chat'')"
      using Inl by auto
    ultimately show ?thesis by blast
  next
    case chat: (Inr chat)
    then obtain m where m: "msg = JObj m" "map_of m (py ''chat'') = Some chat"
      using py_getitem_Inr by blast
    show ?thesis
    proof (cases "py_getitem chat (py ''id'')")
      case (Inl e)
      then have "webhook_try w req = lift_result (Inl e)"
        using assms(1,2) chat by (simp add: webhook_try_def)
      moreover have "msg \<noteq> JObj []"
        using m by auto
      ultimately show ?thesis by blast
    next
      case (Inr chat_id)
      then obtain c where "chat = JObj c" "map_of c (py ''id'') = Some chat_id"
        using py_getitem_Inr by blast
      with m assms(3) show ?thesis by blast
    qed
  qed
  then obtain e where e: "webhook_try w req = lift_result (Inl e)"
    and empty: "msg = JObj [] \<longrightarrow> e = KeyError (py ''chat'')"
    by blast
  have "fst (webhook_try w req s) = Inl e"
    by (simp add: e lift_result_def)
  moreover have "webhook w req s =
      (Inr (error_response w e), s\<lparr>console := console s @ [webhook_error_prefix @ py_str w e]\<rparr>)"
    by (simp add: webhook_no_call [OF e])
  ultimately show ?thesis
    using empty by (auto simp add: error_response_def ok_response_def)
qed

text \<open>The body \<open>{"message": {}}\<close>: HTTP 500 with the error \<open>'chat'\<close>.\<close>

theorem missing_chat_id_is_an_error_witness:
  "request_json chatless_update =
     Inr (JObj [(py ''message'', JObj [])]) \<and>
   fst (webhook online_world chatless_update initial) =
     Inr (JSONResponse
            (JObj [(py ''ok'', JBool False), (py ''error'', JStr (py [CHR 0x27] @ py ''chat'' @ py [CHR 0x27]))])
            500) \<and>
   calls (snd (webhook online_world chatless_update initial)) = []"
proof -
  have req: "request_json chatless_update =
     Inr (JObj [(py ''message'', JObj [])])"
    by (simp add: chatless_update_def update_with_def)
  have msg: "map_of [(py ''message'', JObj [])] (py ''message'') =
      Some (JObj [])"
    by simp
  show ?thesis
    using req missing_chat_id_is_an_error [OF req msg, of online_world initial]
    by (auto simp add: initial_def)
qed

section \<open>One reply at most\<close>

text \<open>
  C7. Whatever the request and the outside world, the handling of one update adds at
  most one send call to the trace: zero or one, never two.
\<close>

theorem at_most_one_send:
  "\<exists>new. calls (snd (webhook w req s)) = calls s @ new \<and> length (filter is_send new) \<le> 1"
proof -
  consider (stop) r where "webhook_try w req = lift_result r"
    | (fixed) chat_id reply where "webhook_try w req =
        py_bind (send_telegram_message w chat_id reply) (\<lambda>_. py_return ok_response)"
    | (completed) chat_id tval where "webhook_try w req =
        py_bind (get_openai_response w tval) (\<lambda>ai_response.
        py_bind (send_telegram_message w chat_id ai_response) (\<lambda>_.
        py_return ok_response))"
    using webhook_try_shape_here [of w req] by blast
  then show ?thesis
  proof cases
    case stop
    then have "calls (snd (webhook w req s)) = calls s @ []"
      by (simp add: webhook_no_call split: sum.splits)
    then show ?thesis
      by (intro exI [of _ "[]"]) simp
  next
    case fixed
    then have "calls (snd (webhook w req s)) = calls s @ [send_call w chat_id reply]"
      by (simp add: webhook_fixed_reply split: sum.splits)
    then show ?thesis
      by (intro exI [of _ "[send_call w chat_id reply]"]) simp
  next
    case completed
    obtain reply where "ai_result w tval = Inr reply"
      using ai_result_returns by blast
    with completed have "calls (snd (webhook w req s)) =
        calls s @ [completion_call tval, send_call w chat_id reply]"
      by (simp add: webhook_ai_reply split: sum.splits)
    then show ?thesis
      by (intro exI [of _ "[completion_call tval, send_call w chat_id reply]"]) simp
  qed
qed

text \<open>On the update with the text \<open>hello\<close>, two calls are made and one of them is a send.\<close>

theorem at_most_one_send_witness:
  "\<exists>new. calls (snd (webhook online_world hello_update initial)) = calls initial @ new \<and>
     length (filter is_send new) \<le> 1"
  using at_most_one_send [of online_world hello_update initial] .

section \<open>The top-level catch\<close>



section \<open>The completion client\<close>



section \<open>The bot token\<close>

lemma send_url_without_token:
  "TELEGRAM_API_URL (w\<lparr>TELEGRAM_BOT_TOKEN := None\<rparr>) @ py ''/sendMessage'' =
     py ''https://api.telegram.org/botNone/sendMessage''"
  by (simp add: TELEGRAM_API_URL_def py_def)

lemma send_url_with_token:
  "TELEGRAM_API_URL (w\<lparr>TELEGRAM_BOT_TOKEN := Some token\<rparr>) @ py ''/sendMessage'' =
     py ''https://api.telegram.org/bot'' @ token @ py ''/sendMessage''"
  by (simp add: TELEGRAM_API_URL_def)

lemma send_result_token:
  assumes "\<forall>payload.
      http_post w (py ''https://api.telegram.org/botNone/sendMessage'') payload =
      http_post w (py ''https://api.telegram.org/bot'' @ token @ py ''/sendMessage'') payload"
  shows "send_result (w\<lparr>TELEGRAM_BOT_TOKEN := None\<rparr>) chat_id reply =
     send_result (w\<lparr>TELEGRAM_BOT_TOKEN := Some token\<rparr>) chat_id reply"
  using assms
  by (simp add: send_result_cases send_url_without_token send_url_with_token)

text \<open>
  C8, as amended. The webhook path never looks at the bot token: with the token absent
  the handler takes the same branch and makes the same calls with the same arguments
  (the same completion call, the same chat id and text in the send call), except that
  the send goes to \<open>https://api.telegram.org/botNone/sendMessage\<close>. Its response is the
  same as with the token set whenever the HTTP client answers the same at the two URLs.
  The admin endpoints do test the token: with the token absent both raise
  \<open>HTTPException(500)\<close> without any call, with a token set they make their call.
\<close>

theorem token_only_changes_the_send_url:
  "map forget_url (calls (snd (webhook (w\<lparr>TELEGRAM_BOT_TOKEN := None\<rparr>) req s))) =
     map forget_url (calls (snd (webhook (w\<lparr>TELEGRAM_BOT_TOKEN := Some token\<rparr>) req s))) \<and>
   ((\<forall>payload.
       http_post w (py ''https://api.telegram.org/botNone/sendMessage'') payload =
       http_post w (py ''https://api.telegram.org/bot'' @ token @ py ''/sendMessage'') payload) \<longrightarrow>
    fst (webhook (w\<lparr>TELEGRAM_BOT_TOKEN := None\<rparr>) req s) =
      fst (webhook (w\<lparr>TELEGRAM_BOT_TOKEN := Some token\<rparr>) req s)) \<and>
   set_webhook (w\<lparr>TELEGRAM_BOT_TOKEN := None\<rparr>) webhook_url s =
     (Inl (HTTPException 500 token_not_set), s) \<and>
   get_webhook_info (w\<lparr>TELEGRAM_BOT_TOKEN := None\<rparr>) s =
     (Inl (HTTPException 500 token_not_set), s) \<and>
   (token \<noteq> [] \<longrightarrow>
    calls (snd (set_webhook (w\<lparr>TELEGRAM_BOT_TOKEN := Some token\<rparr>) webhook_url s)) =
      calls s @ [HttpPost (py ''https://api.telegram.org/bot'' @ token @ py ''/setWebhook'')
                   (JObj [(py ''url'', JStr webhook_url)])]) \<and>
   (token \<noteq> [] \<longrightarrow>
    calls (snd (get_webhook_info (w\<lparr>TELEGRAM_BOT_TOKEN := Some token\<rparr>) s)) =
      calls s @ [HttpGet (py ''https://api.telegram.org/bot'' @ token @ py ''/getWebhookInfo'')])"
proof -
  let ?w0 = "w\<lparr>TELEGRAM_BOT_TOKEN := None\<rparr>"
  let ?w1 = "w\<lparr>TELEGRAM_BOT_TOKEN := Some token\<rparr>"
  let ?same_answers = "\<forall>payload.
       http_post w (py ''https://api.telegram.org/botNone/sendMessage'') payload =
       http_post w (py ''https://api.telegram.org/bot'' @ token @ py ''/sendMessage'') payload"
  have handler: "map forget_url (calls (snd (webhook ?w0 req s))) =
      map forget_url (calls (snd (webhook ?w1 req s))) \<and>
    (?same_answers \<longrightarrow> fst (webhook ?w0 req s) = fst (webhook ?w1 req s))"
  proof -
    consider (stop) r where "\<forall>tok. webhook_try (w\<lparr>TELEGRAM_BOT_TOKEN := tok\<rparr>) req = lift_result r"
      | (fixed) chat_id reply where "\<forall>tok.
          webhook_try (w\<lparr>TELEGRAM_BOT_TOKEN := tok\<rparr>) req =
            py_bind (send_telegram_message (w\<lparr>TELEGRAM_BOT_TOKEN := tok\<rparr>) chat_id reply) (\<lambda>_.
            py_return ok_response)"
      | (completed) chat_id tval where "\<forall>tok.
          webhook_try (w\<lparr>TELEGRAM_BOT_TOKEN := tok\<rparr>) req =
            py_bind (get_openai_response (w\<lparr>TELEGRAM_BOT_TOKEN := tok\<rparr>) tval) (\<lambda>ai_response.
            py_bind (send_telegram_message (w\<lparr>TELEGRAM_BOT_TOKEN := tok\<rparr>) chat_id ai_response) (\<lambda>_.
            py_return ok_response))"
      using webhook_try_shape [of w req] by blast
    then show ?thesis
    proof cases
      case stop
      then have "webhook_try ?w0 req = lift_result r" "webhook_try ?w1 req = lift_result r"
        by blast+
      then have "webhook ?w0 req s = webhook ?w1 req s"
        by (simp add: webhook_no_call split: sum.splits)
      then show ?thesis by simp
    next
      case fixed
      then have t0: "webhook_try ?w0 req =
            py_bind (send_telegram_message ?w0 chat_id reply) (\<lambda>_. py_return ok_response)"
        and t1: "webhook_try ?w1 req =
            py_bind (send_telegram_message ?w1 chat_id reply) (\<lambda>_. py_return ok_response)"
        by blast+
      note run = webhook_fixed_reply [OF t0, of s] webhook_fixed_reply [OF t1, of s]
      have "map forget_url (calls (snd (webhook ?w0 req s))) =
          map forget_url (calls (snd (webhook ?w1 req s)))"
        unfolding run by (simp split: sum.splits)
      moreover have "fst (webhook ?w0 req s) = fst (webhook ?w1 req s)" if ?same_answers
        unfolding run using send_result_token [OF that, of chat_id reply]
        by (simp split: sum.splits)
      ultimately show ?thesis by blast
    next
      case completed
      obtain reply where reply: "ai_result w tval = Inr reply"
        using ai_result_returns by blast
      from completed have t0: "webhook_try ?w0 req =
            py_bind (get_openai_response ?w0 tval) (\<lambda>ai_response.
            py_bind (send_telegram_message ?w0 chat_id ai_response) (\<lambda>_.
            py_return ok_response))"
        and t1: "webhook_try ?w1 req =
            py_bind (get_openai_response ?w1 tval) (\<lambda>ai_response.
            py_bind (send_telegram_message ?w1 chat_id ai_response) (\<lambda>_.
            py_return ok_response))"
        by blast+
      have r0: "ai_result ?w0 tval = Inr reply" and r1: "ai_result ?w1 tval = Inr reply"
        using reply by simp_all
      note run = webhook_ai_reply [OF t0 r0, of s] webhook_ai_reply [OF t1 r1, of s]
      have "map forget_url (calls (snd (webhook ?w0 req s))) =
          map forget_url (calls (snd (webhook ?w1 req s)))"
        unfolding run by (simp split: sum.splits)
      moreover have "fst (webhook ?w0 req s) = fst (webhook ?w1 req s)" if ?same_answers
        unfolding run using send_result_token [OF that, of chat_id reply]
        by (simp split: sum.splits)
      ultimately show ?thesis by blast
    qed
  qed
  have admin_absent: "set_webhook ?w0 webhook_url s = (Inl (HTTPException 500 token_not_set), s)"
    "get_webhook_info ?w0 s = (Inl (HTTPException 500 token_not_set), s)"
    by (simp_all add: set_webhook_def get_webhook_info_def not_TELEGRAM_BOT_TOKEN_def
        py_raise_def)
  have admin_set: "calls (snd (set_webhook ?w1 webhook_url s)) =
      calls s @ [HttpPost (py ''https://api.telegram.org/bot'' @ token @ py ''/setWebhook'')
                   (JObj [(py ''url'', JStr webhook_url)])]"
    "calls (snd (get_webhook_info ?w1 s)) =
      calls s @ [HttpGet (py ''https://api.telegram.org/bot'' @ token @ py ''/getWebhookInfo'')]"
    if "token \<noteq> []"
    using that
    by (simp_all add: set_webhook_def get_webhook_info_def not_TELEGRAM_BOT_TOKEN_def
        TELEGRAM_API_URL_def py_bind_def client_post_def client_get_def raise_for_status_def
        response_json_def lift_result_def py_return_def py_raise_def Let_def
        split: sum.splits option.splits prod.splits)
  show ?thesis
    using handler admin_absent admin_set by blast
qed

text \<open>
  On a platform that accepts every request, the greeting is answered \<open>{"ok": true}\<close>
  with and without the token, and registering the webhook fails without it.
\<close>

theorem token_only_changes_the_send_url_witness:
  "fst (webhook (online_world\<lparr>TELEGRAM_BOT_TOKEN := None\<rparr>) start_update initial) =
     fst (webhook (online_world\<lparr>TELEGRAM_BOT_TOKEN := Some (py ''123:ABC'')\<rparr>) start_update initial) \<and>
   map forget_url (calls (snd (webhook (online_world\<lparr>TELEGRAM_BOT_TOKEN := None\<rparr>) start_update initial))) =
     map forget_url (calls (snd (webhook (online_world\<lparr>TELEGRAM_BOT_TOKEN := Some (py ''123:ABC'')\<rparr>)
       start_update initial))) \<and>
   set_webhook (online_world\<lparr>TELEGRAM_BOT_TOKEN := None\<rparr>) (py ''https://example.org/webhook'') initial =
     (Inl (HTTPException 500 token_not_set), initial)"
proof -
  have "\<forall>payload.
       http_post online_world (py ''https://api.telegram.org/botNone/sendMessage'') payload =
       http_post online_world (py ''https://api.telegram.org/bot'' @ py ''123:ABC'' @ py ''/sendMessage'')
         payload"
    by (simp add: online_world_def accepting_post_def)
  with token_only_changes_the_send_url
    [of online_world start_update initial "py ''123:ABC''" "py ''https://example.org/webhook''"]
  show ?thesis
    by blast
qed

text \<open>
  C8 as stated fails on a platform that knows the token \<open>123:ABC\<close> and answers 404 under
  any other path: the same greeting is answered \<open>{"ok": true}\<close> with the token set and
  HTTP 500 with the token absent, all else equal.
\<close>

theorem token_changes_the_answer:
  "tokenless_telegram_world = telegram_world\<lparr>TELEGRAM_BOT_TOKEN := None\<rparr> \<and>
   TELEGRAM_BOT_TOKEN telegram_world = Some (py ''123:ABC'') \<and>
   fst (webhook telegram_world start_update initial) = Inr ok_response \<and>
   fst (webhook tokenless_telegram_world start_update initial) =
     Inr (JSONResponse
            (JObj [(py ''ok'', JBool False),
                   (py ''error'', JStr (py ''Client error 404 Not Found''))]) 500)"
proof -
  have greeting: "webhook_try w start_update =
      py_bind (send_telegram_message w (JInt 42) welcome_message) (\<lambda>_. py_return ok_response)"
    for w
    by (simp add: start_update_def chat_42_def
        webhook_try_update_with [of _ "[(py ''id'', JInt 42)]" "JInt 42"])
  have "send_result telegram_world (JInt 42) welcome_message =
      Inr (JObj [(py ''ok'', JBool True)])"
    by (simp add: send_result_cases telegram_world_def online_world_def TELEGRAM_API_URL_def
        token_checking_post_def accepted_def py_def)
  moreover have "send_result tokenless_telegram_world (JInt 42) welcome_message =
      Inl (LibraryError (py ''Client error 404 Not Found''))"
    by (simp add: send_result_cases tokenless_telegram_world_def telegram_world_def
        online_world_def TELEGRAM_API_URL_def token_checking_post_def not_found_def py_def)
  ultimately show ?thesis
    by (simp add: webhook_fixed_reply [OF greeting] error_response_def)
      (simp add: tokenless_telegram_world_def telegram_world_def online_world_def)
qed

end
